theory Spec2Isabelle
  imports Complex_Main "HOL-Library.Log_Nat" "HOL-Library.Char_ord" "HOL-Library.List_Lexorder"
begin

section \<open>Python values used by the bot\<close>

text \<open>
  The exceptions the modelled code can raise. \<open>AttributeError\<close> is what Python raises
  when an attribute of \<open>None\<close> is read (\<open>sub.task.title\<close> with no task row),
  \<open>FileNotFoundError\<close> what \<open>os.remove\<close> raises on a missing path.
\<close>

datatype py_error = ZeroDivisionError | AttributeError | FileNotFoundError | TransportError

text \<open>
  A Python \<open>str\<close> whose characters matter (the progress bar) is a list of code points.
  \<open>FULL_BLOCK\<close> is U+2588 and \<open>LIGHT_SHADE\<close> is U+2591, the two characters of
  \<open>utils.format_progress_bar\<close>.
\<close>

type_synonym pystr = "nat list"

definition FULL_BLOCK :: nat where
  "FULL_BLOCK = 9608"

definition LIGHT_SHADE :: nat where
  "LIGHT_SHADE = 9617"

text \<open>\<open>c * n\<close> for a one-character string \<open>c\<close>: empty when \<open>n\<close> is not positive.\<close>

definition str_times :: "nat \<Rightarrow> int \<Rightarrow> pystr" where
  "str_times c n = replicate (nat n) c"

subsection \<open>Binary64 arithmetic\<close>

text \<open>
  \<open>completed / total\<close> is Python's true division of two ints: the exact quotient
  rounded to the nearest binary64 value, ties to even. The product with \<open>100\<close> is
  rounded the same way, and \<open>int(...)\<close> truncates towards zero. A float is modelled by
  the rational it denotes; \<open>round_double\<close> keeps 53 significant bits. The exponent range
  of binary64 is not modelled (the quotients of row counts are far inside it).
\<close>

definition pow2 :: "int \<Rightarrow> rat" where
  "pow2 e = (if 0 \<le> e then 2 ^ nat e else 1 / 2 ^ nat (- e))"

definition binade :: "rat \<Rightarrow> int" where
  "binade x = (let (p, q) = quotient_of x; d = bitlen p - bitlen q
               in if pow2 d \<le> x then d else d - 1)"

definition round_half_even :: "rat \<Rightarrow> int" where
  "round_half_even x = (let f = \<lfloor>x\<rfloor>; d = x - of_int f
     in if d < 1 / 2 then f else if 1 / 2 < d then f + 1 else if even f then f else f + 1)"

definition round_double :: "rat \<Rightarrow> rat" where
  "round_double x = (if x = 0 then 0 else
     let scale = pow2 (52 - binade \<bar>x\<bar>); m = round_half_even (\<bar>x\<bar> * scale)
     in sgn x * of_int m / scale)"

definition truediv :: "int \<Rightarrow> int \<Rightarrow> py_error + rat" where
  "truediv a b = (if b = 0 then Inl ZeroDivisionError
                  else Inr (round_double (of_int a / of_int b)))"

definition float_mul :: "rat \<Rightarrow> rat \<Rightarrow> rat" where
  "float_mul x y = round_double (x * y)"

definition int_of_float :: "rat \<Rightarrow> int" where
  "int_of_float x = (if 0 \<le> x then \<lfloor>x\<rfloor> else \<lceil>x\<rceil>)"

subsection \<open>utils.format_progress_bar\<close>

text \<open>
  \<^verbatim>\<open>
  def format_progress_bar(completed: int, total: int, length: int = 10) -> str:
      if total == 0:
          return "E" * length
      percent = int((completed / total) * 100)
      filled = percent // 10
      return "F" * filled + "E" * (length - filled)
  \<close>
  (\<open>F\<close> and \<open>E\<close> stand for the full block and the light shade.)
\<close>

definition format_progress_bar :: "int \<Rightarrow> int \<Rightarrow> int \<Rightarrow> py_error + pystr" where
  "format_progress_bar completed total_n len =
     (if total_n = 0 then Inr (str_times LIGHT_SHADE len)
      else case truediv completed total_n of
             Inl e \<Rightarrow> Inl e
           | Inr q \<Rightarrow>
               let percent = int_of_float (float_mul q 100);
                   filled = percent div 10
               in Inr (str_times FULL_BLOCK filled @ str_times LIGHT_SHADE (len - filled)))"

text \<open>The call with the default \<open>length = 10\<close>.\<close>

definition format_progress_bar_default :: "int \<Rightarrow> int \<Rightarrow> py_error + pystr" where
  "format_progress_bar_default completed total_n = format_progress_bar completed total_n 10"

section \<open>The database and the photo directory\<close>

text \<open>
  \<open>database.py\<close> declares five tables. A row is a record; a column is an \<open>option\<close>
  where the code or the ORM writes \<open>NULL\<close> into it: the image references, the scheduled
  date, the approval time, the user name, and \<open>quest_completions.quest_id\<close>, which
  SQLAlchemy sets to \<open>NULL\<close> when the quest is deleted (the relationship
  \<open>Quest.completions\<close> has no delete cascade). A \<open>DateTime\<close> is a number.
\<close>

type_synonym path = string
type_synonym datetime = nat

record user =
  u_id :: int
  u_telegram_id :: int
  u_username :: "string option"
  u_is_admin :: bool

record quest =
  q_id :: int
  q_title :: string
  q_description :: string
  q_image_url :: "path option"
  q_reward :: string
  q_required_completions :: int
  q_created_at :: datetime
  q_is_active :: bool
  q_created_by :: int

record task =
  t_id :: int
  t_quest_id :: int
  t_title :: string
  t_description :: string
  t_image_url :: "path option"
  t_points :: int
  t_order :: int
  t_scheduled_date :: "string option"
  t_is_completed :: bool

record submission =
  s_id :: int
  s_task_id :: int
  s_user_id :: int
  s_photo_url :: "path option"
  s_comment :: string
  s_submitted_at :: datetime
  s_is_approved :: bool
  s_approved_at :: "datetime option"

record quest_completion =
  c_id :: int
  c_quest_id :: "int option"
  c_user_id :: int
  c_completed_at :: datetime
  c_reward_claimed :: bool

text \<open>
  The state the bot works on: each table as the list of its rows in rowid order (the order
  in which SQLite scans a table, hence the order of a query with no \<open>order_by\<close>), and
  the set of paths that exist in the photo directory.
\<close>

record state =
  users :: "user list"
  quests :: "quest list"
  tasks :: "task list"
  submissions :: "submission list"
  completions :: "quest_completion list"
  files :: "path set"

definition empty_state :: state where
  "empty_state = \<lparr>users = [], quests = [], tasks = [], submissions = [], completions = [],
                   files = {}\<rparr>"

text \<open>\<open>ADMIN_ID\<close> and \<open>GIRLFRIEND_ID\<close> are read from the environment at start-up.\<close>

record config =
  ADMIN_ID :: int
  GIRLFRIEND_ID :: int

text \<open>
  What a handler reads from outside the database: \<open>datetime.now()\<close>,
  \<open>date.today().isoformat()\<close>, and whether a message sent by the bot to the other party
  (\<open>bot.send_message\<close>, \<open>bot.send_photo\<close>) is delivered or raises.
\<close>

record env =
  now :: datetime
  today :: string
  send_ok :: bool

text \<open>
  The integer primary key SQLite gives a new row: one more than the largest in use, 1 in
  an empty table.
\<close>

definition next_id :: "int list \<Rightarrow> int" where
  "next_id ids = fold max ids 0 + 1"

text \<open>Truth value of \<open>url\<close> in \<open>if url and ...\<close>: \<open>None\<close> and the empty string are false.\<close>

fun truthy :: "string option \<Rightarrow> bool" where
  "truthy None = False"
| "truthy (Some s) = (s \<noteq> [])"

subsection \<open>Effects\<close>

text \<open>
  A handler returns the state it leaves, the effects it performed in program order, and
  how it ended. \<open>SubmissionDeleted\<close>, \<open>TaskDeleted\<close> and \<open>QuestDeleted\<close> are rows
  handed to \<open>session.delete\<close> and committed; \<open>Sent\<close> is a message of the bot.
\<close>

datatype message =
    Congratulation int
  | ApprovalNotice int int
  | RejectionNotice int
  | ReportNotice int

datatype event =
    FileRemoved path
  | FileRemoveFailed path
  | SubmissionInserted int
  | SubmissionApproved int
  | SubmissionDeleted int
  | TaskDeleted int
  | QuestDeleted int
  | CompletionInserted int int
  | CompletionDetached int
  | Sent message

datatype outcome = Done | NotFound | Raised py_error

record effect =
  post :: state
  trace :: "event list"
  outcome :: outcome

fun is_file_event :: "event \<Rightarrow> bool" where
  "is_file_event (FileRemoved p) = True"
| "is_file_event (FileRemoveFailed p) = True"
| "is_file_event e = False"

fun is_delete_event :: "event \<Rightarrow> bool" where
  "is_delete_event (SubmissionDeleted i) = True"
| "is_delete_event (TaskDeleted i) = True"
| "is_delete_event (QuestDeleted i) = True"
| "is_delete_event e = False"

subsection \<open>Files\<close>

definition os_path_exists :: "path \<Rightarrow> path set \<Rightarrow> bool" where
  "os_path_exists p fs = (p \<in> fs)"

definition os_remove :: "path \<Rightarrow> path set \<Rightarrow> py_error + path set" where
  "os_remove p fs = (if p \<in> fs then Inr (fs - {p}) else Inl FileNotFoundError)"

text \<open>
  The pattern the bot uses for every artifact:
  \<^verbatim>\<open>
  if url and os.path.exists(url):
      try:
          os.remove(url)
      except Exception as e:
          logger.error(...)
  \<close>
\<close>

definition remove_artifact :: "path option \<Rightarrow> path set \<Rightarrow> path set \<times> event list" where
  "remove_artifact url fs =
     (case url of
        None \<Rightarrow> (fs, [])
      | Some p \<Rightarrow>
          if truthy url \<and> os_path_exists p fs
          then (case os_remove p fs of
                  Inr fs' \<Rightarrow> (fs', [FileRemoved p])
                | Inl e \<Rightarrow> (fs, [FileRemoveFailed p]))
          else (fs, []))"

fun remove_artifacts :: "path option list \<Rightarrow> path set \<Rightarrow> path set \<times> event list" where
  "remove_artifacts [] fs = (fs, [])"
| "remove_artifacts (url # urls) fs =
     (let (fs1, ev1) = remove_artifact url fs;
          (fs2, ev2) = remove_artifacts urls fs1
      in (fs2, ev1 @ ev2))"

subsection \<open>bot.cleanup_task_files and bot.cleanup_quest_files\<close>

text \<open>
  \<open>cleanup_task_files\<close> removes the photo of every submission of the task, then the
  task's own image. \<open>cleanup_quest_files\<close> (the definition in \<open>bot.py\<close>, which
  shadows the stub imported from \<open>utils\<close>) does so for every task of the quest, then
  removes the quest's image. Neither touches the database.
\<close>

definition cleanup_task_files :: "int \<Rightarrow> state \<Rightarrow> path set \<Rightarrow> path set \<times> event list" where
  "cleanup_task_files task_id st fs =
     (let subs = filter (\<lambda>s. s_task_id s = task_id) (submissions st);
          (fs1, ev1) = remove_artifacts (map s_photo_url subs) fs;
          (fs2, ev2) = (case find (\<lambda>t. t_id t = task_id) (tasks st) of
                          None \<Rightarrow> (fs1, [])
                        | Some t \<Rightarrow> remove_artifact (t_image_url t) fs1)
      in (fs2, ev1 @ ev2))"

fun cleanup_tasks :: "task list \<Rightarrow> state \<Rightarrow> path set \<Rightarrow> path set \<times> event list" where
  "cleanup_tasks [] st fs = (fs, [])"
| "cleanup_tasks (t # ts) st fs =
     (let (fs1, ev1) = cleanup_task_files (t_id t) st fs;
          (fs2, ev2) = cleanup_tasks ts st fs1
      in (fs2, ev1 @ ev2))"

definition cleanup_quest_files :: "int \<Rightarrow> state \<Rightarrow> path set \<times> event list" where
  "cleanup_quest_files quest_id st =
     (let ts = filter (\<lambda>t. t_quest_id t = quest_id) (tasks st);
          (fs1, ev1) = cleanup_tasks ts st (files st);
          (fs2, ev2) = (case find (\<lambda>q. q_id q = quest_id) (quests st) of
                          None \<Rightarrow> (fs1, [])
                        | Some q \<Rightarrow> remove_artifact (q_image_url q) fs1)
      in (fs2, ev1 @ ev2))"

subsection \<open>bot.show_current_quest\<close>

text \<open>
  A condition \<open>x NOT IN (ys)\<close> in a \<open>WHERE\<close> clause keeps the row only when it is true:
  it is false when \<open>x\<close> equals an element and unknown when it equals none but \<open>ys\<close>
  holds a \<open>NULL\<close>.
\<close>

definition sql_not_in :: "int \<Rightarrow> int option list \<Rightarrow> bool" where
  "sql_not_in x ys = (Some x \<notin> set ys \<and> None \<notin> set ys)"

text \<open>
  \<^verbatim>\<open>
  completed_quest_ids = [cq.quest_id for cq in
      session.query(QuestCompletion).filter_by(user_id=user.id).all()]
  if completed_quest_ids:
      quest = session.query(Quest).filter(Quest.is_active == True,
                  ~Quest.id.in_(completed_quest_ids)).first()
  else:
      quest = session.query(Quest).filter_by(is_active=True).first()
  \<close>
\<close>

definition current_quest :: "int \<Rightarrow> state \<Rightarrow> quest option" where
  "current_quest uid st =
     (let completed_quest_ids =
            map c_quest_id (filter (\<lambda>cq. c_user_id cq = uid) (completions st))
      in if completed_quest_ids \<noteq> []
         then find (\<lambda>q. q_is_active q \<and> sql_not_in (q_id q) completed_quest_ids) (quests st)
         else find q_is_active (quests st))"

datatype display_state = Approved | Pending | ScheduledFuture | Available

text \<open>
  The \<open>if\<close>/\<open>elif\<close> chain of the task loop. \<open>t.scheduled_date > today\<close> compares two
  strings, character by character.
\<close>

definition task_display_state :: "int list \<Rightarrow> int list \<Rightarrow> string \<Rightarrow> task \<Rightarrow> display_state" where
  "task_display_state completed_ids pending_ids today_iso t =
     (if t_id t \<in> set completed_ids then Approved
      else if t_id t \<in> set pending_ids then Pending
      else if (case t_scheduled_date t of
                 None \<Rightarrow> False
               | Some d \<Rightarrow> d \<noteq> [] \<and> today_iso < d) then ScheduledFuture
      else Available)"

text \<open>
  \<open>int((completed_count / quest.required_completions) * 100)
     if quest.required_completions > 0 else 0\<close>
\<close>

definition percent_of :: "int \<Rightarrow> int \<Rightarrow> py_error + int" where
  "percent_of completed_count required =
     (if 0 < required
      then (case truediv completed_count required of
              Inl e \<Rightarrow> Inl e
            | Inr q \<Rightarrow> Inr (int_of_float (float_mul q 100)))
      else Inr 0)"

text \<open>
  What the view shows: the quest, the progress numbers and bar, one line per task of the
  quest (ordered by \<open>Task.order\<close>) with its display state, and the \<open>do_<id>\<close> buttons.
\<close>

record quest_view =
  v_quest :: quest
  v_percent :: int
  v_bar :: pystr
  v_completed_count :: int
  v_lines :: "(task \<times> display_state) list"
  v_buttons :: "int list"

datatype view = AllQuestsCompleted | CurrentQuest quest_view

definition show_current_quest :: "config \<Rightarrow> env \<Rightarrow> state \<Rightarrow> py_error + view" where
  "show_current_quest cfg e st =
     (case find (\<lambda>u. u_telegram_id u = GIRLFRIEND_ID cfg) (users st) of
        None \<Rightarrow> Inl AttributeError
      | Some user \<Rightarrow>
          (case current_quest (u_id user) st of
             None \<Rightarrow> Inr AllQuestsCompleted
           | Some quest \<Rightarrow>
               let ts = sort_key t_order (filter (\<lambda>t. t_quest_id t = q_id quest) (tasks st));
                   completed_ids = map s_task_id
                     (filter (\<lambda>s. s_user_id s = u_id user \<and> s_is_approved s) (submissions st));
                   pending_ids = map s_task_id
                     (filter (\<lambda>s. s_user_id s = u_id user \<and> \<not> s_is_approved s) (submissions st));
                   completed_count = int (length completed_ids)
               in (case percent_of completed_count (q_required_completions quest) of
                     Inl err \<Rightarrow> Inl err
                   | Inr percent \<Rightarrow>
                       let lines = map (\<lambda>t. (t, task_display_state completed_ids pending_ids
                                              (today e) t)) ts
                       in Inr (CurrentQuest
                            \<lparr>v_quest = quest,
                             v_percent = percent,
                             v_bar = str_times FULL_BLOCK (percent div 10)
                                     @ str_times LIGHT_SHADE (10 - percent div 10),
                             v_completed_count = completed_count,
                             v_lines = lines,
                             v_buttons = map (t_id \<circ> fst)
                               (filter (\<lambda>l. snd l = Available) lines)\<rparr>))))"

subsection \<open>handle_callback: approve_<id> and reject_<id>\<close>

text \<open>
  Approval. The submission is marked and committed before anything else is read, so an
  exception raised later (\<open>sub.task\<close> or \<open>sub.task.quest\<close> is \<open>None\<close>, a message is
  not delivered) leaves the approval in place. \<open>completed\<close> counts the approved
  submissions of the user, with no condition on the task or the quest.
\<close>

definition approve :: "config \<Rightarrow> env \<Rightarrow> int \<Rightarrow> state \<Rightarrow> effect" where
  "approve cfg e sub_id st =
     (case find (\<lambda>s. s_id s = sub_id) (submissions st) of
        None \<Rightarrow> \<lparr>post = st, trace = [], outcome = NotFound\<rparr>
      | Some sub \<Rightarrow>
          let st1 = st\<lparr>submissions :=
                      map (\<lambda>s. if s_id s = s_id sub
                                then s\<lparr>s_is_approved := True, s_approved_at := Some (now e)\<rparr>
                                else s) (submissions st)\<rparr>;
              ev1 = [SubmissionApproved (s_id sub)];
              completed = int (length (filter
                 (\<lambda>s. s_user_id s = s_user_id sub \<and> s_is_approved s) (submissions st1)))
          in (case find (\<lambda>t. t_id t = s_task_id sub) (tasks st1) of
                None \<Rightarrow> \<lparr>post = st1, trace = ev1, outcome = Raised AttributeError\<rparr>
              | Some task \<Rightarrow>
                  (case find (\<lambda>q. q_id q = t_quest_id task) (quests st1) of
                     None \<Rightarrow> \<lparr>post = st1, trace = ev1, outcome = Raised AttributeError\<rparr>
                   | Some quest \<Rightarrow>
                       if q_required_completions quest \<le> completed
                          \<and> find (\<lambda>c. c_quest_id c = Some (q_id quest)
                                       \<and> c_user_id c = s_user_id sub) (completions st1) = None
                       then
                         let comp = \<lparr>c_id = next_id (map c_id (completions st1)),
                                     c_quest_id = Some (q_id quest),
                                     c_user_id = s_user_id sub,
                                     c_completed_at = now e,
                                     c_reward_claimed = False\<rparr>;
                             st2 = st1\<lparr>completions := completions st1 @ [comp]\<rparr>;
                             ev2 = ev1 @ [CompletionInserted (q_id quest) (s_user_id sub)]
                         in if \<not> send_ok e
                            then \<lparr>post = st2, trace = ev2, outcome = Raised TransportError\<rparr>
                            else (case show_current_quest cfg e st2 of
                                    Inl err \<Rightarrow>
                                      \<lparr>post = st2,
                                       trace = ev2 @ [Sent (Congratulation (q_id quest))],
                                       outcome = Raised err\<rparr>
                                  | Inr v \<Rightarrow>
                                      \<lparr>post = st2,
                                       trace = ev2 @ [Sent (Congratulation (q_id quest)),
                                         Sent (ApprovalNotice completed
                                                 (q_required_completions quest))],
                                       outcome = Done\<rparr>)
                       else if \<not> send_ok e
                         then \<lparr>post = st1, trace = ev1, outcome = Raised TransportError\<rparr>
                         else \<lparr>post = st1,
                               trace = ev1 @ [Sent (ApprovalNotice completed
                                                      (q_required_completions quest))],
                               outcome = Done\<rparr>)))"

text \<open>
  Rejection. \<open>sub.task.title\<close> is read first, for the notice; then the photo is removed
  from disk, then the row is deleted and the deletion committed.
\<close>

definition reject :: "env \<Rightarrow> int \<Rightarrow> state \<Rightarrow> effect" where
  "reject e sub_id st =
     (case find (\<lambda>s. s_id s = sub_id) (submissions st) of
        None \<Rightarrow> \<lparr>post = st, trace = [], outcome = NotFound\<rparr>
      | Some sub \<Rightarrow>
          (case find (\<lambda>t. t_id t = s_task_id sub) (tasks st) of
             None \<Rightarrow> \<lparr>post = st, trace = [], outcome = Raised AttributeError\<rparr>
           | Some task \<Rightarrow>
               let (fs1, ev1) = remove_artifact (s_photo_url sub) (files st);
                   st1 = st\<lparr>files := fs1,
                            submissions := filter (\<lambda>s. s_id s \<noteq> s_id sub) (submissions st)\<rparr>;
                   ev2 = ev1 @ [SubmissionDeleted (s_id sub)]
               in if send_ok e
                  then \<lparr>post = st1, trace = ev2 @ [Sent (RejectionNotice (t_id task))],
                        outcome = Done\<rparr>
                  else \<lparr>post = st1, trace = ev2, outcome = Raised TransportError\<rparr>))"

subsection \<open>handle_callback: confirm_delete_quest_<id> and confirm_delete_task_<id>\<close>

text \<open>
  The files are cleaned up first, then the quest is looked up and, if it exists, deleted.
  \<open>session.delete(quest)\<close> follows the relationships of \<open>database.py\<close>:
  \<open>Quest.tasks\<close> and \<open>Task.submissions\<close> cascade the deletion (the rows are loaded
  through the foreign key and deleted by primary key), and the rows of
  \<open>Quest.completions\<close>, which has no delete cascade, get \<open>quest_id = NULL\<close>.
\<close>

definition confirm_delete_quest :: "int \<Rightarrow> state \<Rightarrow> effect" where
  "confirm_delete_quest quest_id st =
     (let (fs1, ev1) = cleanup_quest_files quest_id st;
          st1 = st\<lparr>files := fs1\<rparr>
      in case find (\<lambda>q. q_id q = quest_id) (quests st1) of
           None \<Rightarrow> \<lparr>post = st1, trace = ev1, outcome = NotFound\<rparr>
         | Some quest \<Rightarrow>
             let ts = filter (\<lambda>t. t_quest_id t = q_id quest) (tasks st1);
                 subs = filter (\<lambda>s. s_task_id s \<in> set (map t_id ts)) (submissions st1);
                 comps = filter (\<lambda>c. c_quest_id c = Some (q_id quest)) (completions st1);
                 st2 = st1\<lparr>
                   quests := filter (\<lambda>q. q_id q \<noteq> q_id quest) (quests st1),
                   tasks := filter (\<lambda>t. t_id t \<notin> set (map t_id ts)) (tasks st1),
                   submissions :=
                     filter (\<lambda>s. s_id s \<notin> set (map s_id subs)) (submissions st1),
                   completions :=
                     map (\<lambda>c. if c_id c \<in> set (map c_id comps)
                               then c\<lparr>c_quest_id := None\<rparr> else c) (completions st1)\<rparr>
             in \<lparr>post = st2,
                 trace = ev1 @ map (CompletionDetached \<circ> c_id) comps
                             @ map (SubmissionDeleted \<circ> s_id) subs
                             @ map (TaskDeleted \<circ> t_id) ts
                             @ [QuestDeleted (q_id quest)],
                 outcome = Done\<rparr>)"

definition confirm_delete_task :: "int \<Rightarrow> state \<Rightarrow> effect" where
  "confirm_delete_task task_id st =
     (let (fs1, ev1) = cleanup_task_files task_id st (files st);
          st1 = st\<lparr>files := fs1\<rparr>
      in case find (\<lambda>t. t_id t = task_id) (tasks st1) of
           None \<Rightarrow> \<lparr>post = st1, trace = ev1, outcome = NotFound\<rparr>
         | Some task \<Rightarrow>
             let subs = filter (\<lambda>s. s_task_id s = t_id task) (submissions st1);
                 st2 = st1\<lparr>
                   tasks := filter (\<lambda>t. t_id t \<noteq> t_id task) (tasks st1),
                   submissions :=
                     filter (\<lambda>s. s_id s \<notin> set (map s_id subs)) (submissions st1)\<rparr>
             in \<lparr>post = st2,
                 trace = ev1 @ map (SubmissionDeleted \<circ> s_id) subs @ [TaskDeleted (t_id task)],
                 outcome = Done\<rparr>)"

subsection \<open>handle_callback: do_<id>, and process_complete_submission\<close>

text \<open>
  \<open>do_<id>\<close> opens the photo dialogue unless the participant already has an unapproved
  submission for the task.
\<close>

datatype dialogue = AlreadyPending | WaitingForPhoto int

definition do_task :: "config \<Rightarrow> int \<Rightarrow> state \<Rightarrow> py_error + dialogue" where
  "do_task cfg task_id st =
     (case find (\<lambda>u. u_telegram_id u = GIRLFRIEND_ID cfg) (users st) of
        None \<Rightarrow> Inl AttributeError
      | Some user \<Rightarrow>
          if find (\<lambda>s. s_task_id s = task_id \<and> s_user_id s = u_id user \<and> \<not> s_is_approved s)
               (submissions st) \<noteq> None
          then Inr AlreadyPending
          else (case find (\<lambda>t. t_id t = task_id) (tasks st) of
                  None \<Rightarrow> Inl AttributeError
                | Some task \<Rightarrow> Inr (WaitingForPhoto task_id)))"

text \<open>
  The loop over \<open>old_subs\<close>: the photo of each old unapproved submission is removed from
  disk, then the row is handed to \<open>session.delete\<close>.
\<close>

fun supersede :: "submission list \<Rightarrow> path set \<Rightarrow> path set \<times> event list" where
  "supersede [] fs = (fs, [])"
| "supersede (sub # subs) fs =
     (let (fs1, ev1) = remove_artifact (s_photo_url sub) fs;
          (fs2, ev2) = supersede subs fs1
      in (fs2, ev1 @ SubmissionDeleted (s_id sub) # ev2))"

text \<open>
  The \<open>except\<close> branch: \<open>if os.path.exists(photo_path): try: os.remove(photo_path)
  except: pass\<close>.
\<close>

definition discard_photo :: "path \<Rightarrow> path set \<Rightarrow> path set \<times> event list" where
  "discard_photo photo_path fs =
     (if os_path_exists photo_path fs
      then (case os_remove photo_path fs of
              Inr fs' \<Rightarrow> (fs', [FileRemoved photo_path])
            | Inl e \<Rightarrow> (fs, [FileRemoveFailed photo_path]))
      else (fs, []))"

text \<open>
  The new row is flushed before the deletions (SQLAlchemy saves before it deletes), so
  its key is computed on the table that still holds the old rows. After the commit the
  admin is sent the photo; the caption reads \<open>task.title\<close>, which raises when the task
  row is gone. Any exception after the commit leaves the new row and removes its photo.
\<close>

definition process_complete_submission ::
    "config \<Rightarrow> env \<Rightarrow> int \<Rightarrow> path \<Rightarrow> string \<Rightarrow> state \<Rightarrow> effect" where
  "process_complete_submission cfg e task_id photo_path comment st =
     (let task = find (\<lambda>t. t_id t = task_id) (tasks st)
      in case find (\<lambda>u. u_telegram_id u = GIRLFRIEND_ID cfg) (users st) of
           None \<Rightarrow>
             let (fs1, ev1) = discard_photo photo_path (files st)
             in \<lparr>post = st\<lparr>files := fs1\<rparr>, trace = ev1, outcome = Raised AttributeError\<rparr>
         | Some user \<Rightarrow>
             let old_subs = filter (\<lambda>s. s_task_id s = task_id \<and> s_user_id s = u_id user
                                         \<and> \<not> s_is_approved s) (submissions st);
                 (fs1, ev1) = supersede old_subs (files st);
                 sub = \<lparr>s_id = next_id (map s_id (submissions st)),
                        s_task_id = task_id,
                        s_user_id = u_id user,
                        s_photo_url = Some photo_path,
                        s_comment = comment,
                        s_submitted_at = now e,
                        s_is_approved = False,
                        s_approved_at = None\<rparr>;
                 st1 = st\<lparr>files := fs1,
                          submissions :=
                            filter (\<lambda>s. s_id s \<notin> set (map s_id old_subs)) (submissions st)
                            @ [sub]\<rparr>;
                 ev2 = ev1 @ [SubmissionInserted (s_id sub)];
                 (fs2, ev3) = discard_photo photo_path fs1
             in if task = None
                then \<lparr>post = st1\<lparr>files := fs2\<rparr>, trace = ev2 @ ev3,
                      outcome = Raised AttributeError\<rparr>
                else if \<not> send_ok e
                then \<lparr>post = st1\<lparr>files := fs2\<rparr>, trace = ev2 @ ev3,
                      outcome = Raised TransportError\<rparr>
                else \<lparr>post = st1, trace = ev2 @ [Sent (ReportNotice (s_id sub))],
                      outcome = Done\<rparr>)"

subsection \<open>The handlers that create and edit rows\<close>

text \<open>\<open>get_user\<close>: fetch the user of a Telegram id, creating the row on first contact.\<close>

definition get_user :: "config \<Rightarrow> int \<Rightarrow> state \<Rightarrow> state" where
  "get_user cfg telegram_id st =
     (case find (\<lambda>u. u_telegram_id u = telegram_id) (users st) of
        Some user \<Rightarrow> st
      | None \<Rightarrow>
          st\<lparr>users := users st @
                [\<lparr>u_id = next_id (map u_id (users st)),
                  u_telegram_id = telegram_id,
                  u_username = None,
                  u_is_admin = (telegram_id = ADMIN_ID cfg)\<rparr>]\<rparr>)"

text \<open>\<open>/start\<close> answers only the two known identities.\<close>

definition cmd_start :: "config \<Rightarrow> int \<Rightarrow> state \<Rightarrow> state" where
  "cmd_start cfg from_id st =
     (if from_id \<noteq> ADMIN_ID cfg \<and> from_id \<noteq> GIRLFRIEND_ID cfg then st
      else get_user cfg from_id st)"

text \<open>The start-up code of \<open>main\<close>: make sure both users have a row.\<close>

definition main_init :: "config \<Rightarrow> state \<Rightarrow> state" where
  "main_init cfg st =
     (let st1 = (case find (\<lambda>u. u_telegram_id u = ADMIN_ID cfg) (users st) of
                   Some admin \<Rightarrow> st
                 | None \<Rightarrow>
                     st\<lparr>users := users st @
                       [\<lparr>u_id = next_id (map u_id (users st)),
                         u_telegram_id = ADMIN_ID cfg,
                         u_username = None,
                         u_is_admin = True\<rparr>]\<rparr>)
      in case find (\<lambda>u. u_telegram_id u = GIRLFRIEND_ID cfg) (users st1) of
           Some girlfriend \<Rightarrow> st1
         | None \<Rightarrow>
             if GIRLFRIEND_ID cfg \<noteq> 0
             then st1\<lparr>users := users st1 @
                    [\<lparr>u_id = next_id (map u_id (users st1)),
                      u_telegram_id = GIRLFRIEND_ID cfg,
                      u_username = None,
                      u_is_admin = False\<rparr>]\<rparr>
             else st1)"

text \<open>
  \<open>quest_required\<close>, the last step of the quest dialogue, with the collected fields.
  \<open>user.id\<close> raises when the sender has no row; then nothing is inserted.
\<close>

definition quest_required ::
    "env \<Rightarrow> int \<Rightarrow> string \<Rightarrow> string \<Rightarrow> path option \<Rightarrow> string \<Rightarrow> int \<Rightarrow> state \<Rightarrow> state" where
  "quest_required e from_id title description image_url reward_text required st =
     (case find (\<lambda>u. u_telegram_id u = from_id) (users st) of
        None \<Rightarrow> st
      | Some user \<Rightarrow>
          st\<lparr>quests := quests st @
                [\<lparr>q_id = next_id (map q_id (quests st)),
                  q_title = title,
                  q_description = description,
                  q_image_url = image_url,
                  q_reward = reward_text,
                  q_required_completions = required,
                  q_created_at = now e,
                  q_is_active = True,
                  q_created_by = u_id user\<rparr>]\<rparr>)"

text \<open>
  \<open>task_date\<close>, the last step of the task dialogue. The quest id comes from the dialogue
  state and is not looked up.
\<close>

definition task_date ::
    "int \<Rightarrow> string \<Rightarrow> string \<Rightarrow> path option \<Rightarrow> int \<Rightarrow> string option \<Rightarrow> state \<Rightarrow> state" where
  "task_date quest_id title description image_url points_n scheduled st =
     (let task_count = int (length (filter (\<lambda>t. t_quest_id t = quest_id) (tasks st)))
      in st\<lparr>tasks := tasks st @
               [\<lparr>t_id = next_id (map t_id (tasks st)),
                 t_quest_id = quest_id,
                 t_title = title,
                 t_description = description,
                 t_image_url = image_url,
                 t_points = points_n,
                 t_order = task_count + 1,
                 t_scheduled_date = scheduled,
                 t_is_completed = False\<rparr>]\<rparr>)"

text \<open>\<open>edit_task_field\<close>, with the new value already parsed and validated.\<close>

datatype task_edit =
    EditTitle string
  | EditDescription string
  | EditPoints int
  | EditDate "string option"

fun apply_task_edit :: "task_edit \<Rightarrow> task \<Rightarrow> task" where
  "apply_task_edit (EditTitle v) t = t\<lparr>t_title := v\<rparr>"
| "apply_task_edit (EditDescription v) t = t\<lparr>t_description := v\<rparr>"
| "apply_task_edit (EditPoints v) t = t\<lparr>t_points := v\<rparr>"
| "apply_task_edit (EditDate v) t = t\<lparr>t_scheduled_date := v\<rparr>"

definition edit_task_field :: "int \<Rightarrow> task_edit \<Rightarrow> state \<Rightarrow> state" where
  "edit_task_field task_id ed st =
     (case find (\<lambda>t. t_id t = task_id) (tasks st) of
        None \<Rightarrow> st
      | Some task \<Rightarrow>
          st\<lparr>tasks := map (\<lambda>t. if t_id t = t_id task then apply_task_edit ed t else t)
                           (tasks st)\<rparr>)"

subsection \<open>The bot as a transition system\<close>

text \<open>
  Every handler that writes to the database or the photo directory, as one operation.
  A run applies operations one after the other (the dispatcher serves one update at a
  time), each with the environment it meets.
\<close>

datatype operation =
    MainInit
  | Start int
  | CreateQuest int string string "path option" string int
  | CreateTask int string string "path option" int "string option"
  | EditTask int task_edit
  | DeleteQuest int
  | DeleteTask int
  | Approve int
  | Reject int
  | Submit int path string

fun step :: "config \<Rightarrow> env \<Rightarrow> operation \<Rightarrow> state \<Rightarrow> state" where
  "step cfg e MainInit st = main_init cfg st"
| "step cfg e (Start from_id) st = cmd_start cfg from_id st"
| "step cfg e (CreateQuest from_id title description image_url reward_text required) st =
     quest_required e from_id title description image_url reward_text required st"
| "step cfg e (CreateTask quest_id title description image_url points_n scheduled) st =
     task_date quest_id title description image_url points_n scheduled st"
| "step cfg e (EditTask task_id ed) st = edit_task_field task_id ed st"
| "step cfg e (DeleteQuest quest_id) st = post (confirm_delete_quest quest_id st)"
| "step cfg e (DeleteTask task_id) st = post (confirm_delete_task task_id st)"
| "step cfg e (Approve sub_id) st = post (approve cfg e sub_id st)"
| "step cfg e (Reject sub_id) st = post (reject e sub_id st)"
| "step cfg e (Submit task_id photo_path comment) st =
     post (process_complete_submission cfg e task_id photo_path comment st)"

fun run :: "config \<Rightarrow> (env \<times> operation) list \<Rightarrow> state \<Rightarrow> state" where
  "run cfg [] st = st"
| "run cfg ((e, op) # rest) st = run cfg rest (step cfg e op st)"

subsection \<open>Derived quantities the claims speak about\<close>

text \<open>
  The per-quest progress of a user, as the statistics views compute it:
  \<^verbatim>\<open>
  session.query(Submission).join(Task).filter(Task.quest_id == quest.id,
      Submission.user_id == user.id, Submission.is_approved == True).count()
  \<close>
\<close>

definition quest_progress :: "state \<Rightarrow> int \<Rightarrow> int \<Rightarrow> nat" where
  "quest_progress st quest_id uid =
     length (filter (\<lambda>(s, t). s_task_id s = t_id t \<and> t_quest_id t = quest_id
                            \<and> s_user_id s = uid \<and> s_is_approved s)
               (List.product (submissions st) (tasks st)))"

text \<open>The user's approved submissions over all quests, as \<open>approve\<close> counts them.\<close>

definition approved_total :: "state \<Rightarrow> int \<Rightarrow> nat" where
  "approved_total st uid =
     length (filter (\<lambda>s. s_user_id s = uid \<and> s_is_approved s) (submissions st))"

definition pending_count :: "state \<Rightarrow> int \<Rightarrow> int \<Rightarrow> nat" where
  "pending_count st task_id uid =
     length (filter (\<lambda>s. s_task_id s = task_id \<and> s_user_id s = uid \<and> \<not> s_is_approved s)
               (submissions st))"

definition completion_count :: "state \<Rightarrow> int \<Rightarrow> int \<Rightarrow> nat" where
  "completion_count st quest_id uid =
     length (filter (\<lambda>c. c_quest_id c = Some quest_id \<and> c_user_id c = uid) (completions st))"

text \<open>The paths a list of image or photo references names (empty references name none).\<close>

definition artifact_paths :: "path option list \<Rightarrow> path set" where
  "artifact_paths urls = {p. Some p \<in> set urls \<and> p \<noteq> []}"

text \<open>
  The artifacts of a quest: the photos of the submissions of its tasks, the images of its
  tasks, and its own image.
\<close>

definition quest_artifacts :: "state \<Rightarrow> int \<Rightarrow> path set" where
  "quest_artifacts st quest_id =
     {p. p \<noteq> [] \<and>
         ((\<exists>t \<in> set (tasks st). t_quest_id t = quest_id \<and>
              (t_image_url t = Some p \<or>
               (\<exists>s \<in> set (submissions st). s_task_id s = t_id t \<and> s_photo_url s = Some p)))
          \<or> (\<exists>q \<in> set (quests st). q_id q = quest_id \<and> q_image_url q = Some p))}"

fun is_removal :: "event \<Rightarrow> bool" where
  "is_removal (FileRemoved p) = True"
| "is_removal e = False"

fun is_db_event :: "event \<Rightarrow> bool" where
  "is_db_event (FileRemoved p) = False"
| "is_db_event (FileRemoveFailed p) = False"
| "is_db_event (Sent m) = False"
| "is_db_event e = True"

text \<open>The primary keys: no two rows of a table share an id.\<close>

definition keys_ok :: "state \<Rightarrow> bool" where
  "keys_ok st =
     (distinct (map u_id (users st)) \<and> distinct (map q_id (quests st))
      \<and> distinct (map t_id (tasks st)) \<and> distinct (map s_id (submissions st))
      \<and> distinct (map c_id (completions st)))"

section \<open>Progress bar\<close>

lemma percent_3_of_10: "int_of_float (float_mul (round_double (3 / 10)) 100) = 30"
  by code_simp

text \<open>
  C7: \<open>format_progress_bar(3, 10)\<close> is a bar of ten characters, three full blocks
  followed by seven light shades, and \<open>format_progress_bar(0, 0)\<close> is the all-empty bar
  of the default length ten, returned without a division error.
\<close>

theorem format_progress_bar_cases:
  "format_progress_bar_default 3 10 =
     Inr [FULL_BLOCK, FULL_BLOCK, FULL_BLOCK, LIGHT_SHADE, LIGHT_SHADE, LIGHT_SHADE,
          LIGHT_SHADE, LIGHT_SHADE, LIGHT_SHADE, LIGHT_SHADE]
   \<and> format_progress_bar_default 0 0 = Inr (replicate 10 LIGHT_SHADE)
   \<and> length (replicate 10 LIGHT_SHADE) = 10"
proof -
  have a: "format_progress_bar_default 3 10 =
     Inr (replicate 3 FULL_BLOCK @ replicate 7 LIGHT_SHADE)"
    by (simp add: format_progress_bar_default_def format_progress_bar_def truediv_def
        percent_3_of_10 str_times_def)
  have b: "replicate 3 FULL_BLOCK @ replicate 7 LIGHT_SHADE =
     [FULL_BLOCK, FULL_BLOCK, FULL_BLOCK, LIGHT_SHADE, LIGHT_SHADE, LIGHT_SHADE,
      LIGHT_SHADE, LIGHT_SHADE, LIGHT_SHADE, LIGHT_SHADE]"
    by (simp add: numeral_eq_Suc)
  have c: "format_progress_bar_default 0 0 = Inr (replicate 10 LIGHT_SHADE)"
    by (simp add: format_progress_bar_default_def format_progress_bar_def str_times_def)
  show ?thesis using a b c by simp
qed

end
